theory Spec2Isabelle
  imports Main
begin

section \<open>The validator capability consumed by \<open>validate\<close>\<close>

text \<open>
  A value that a JavaScript call throws, or that a promise is rejected with.
\<close>

datatype exception = Exception string

text \<open>
  \<open>validate\<close> receives a schema object of the validation library and uses two of its
  operations, \<open>safeParse\<close> and \<open>safeParseAsync\<close>. Both answer with a result object that is
  either \<open>{success: true, data}\<close> or \<open>{success: false, error}\<close>. Of the error object the
  function reads the property \<open>message\<close> and calls \<open>flatten()\<close>, of whose value it keeps
  \<open>fieldErrors\<close>. The library is not part of the repository, so the error object is kept
  as the pair of these two observations; \<open>flatten()\<close> is a call into the library and may
  throw instead of returning.
\<close>

record FlattenedError =
  formErrors :: "string list"
  fieldErrors :: "string \<rightharpoonup> string list"

record ZodError =
  message :: string
  flatten :: "exception + FlattenedError"

datatype 'o SafeParseReturnType =
    SafeParseSuccess 'o
  | SafeParseError ZodError

text \<open>
  The schema object. A schema may carry functions supplied by its author (refinements,
  transforms), which can throw and can keep state between calls. So an operation takes
  the state of the schema and gives back the state it leaves, together with either the
  value thrown (\<open>Inl\<close>) or the result object (\<open>Inr\<close>). For \<open>safeParseAsync\<close>, which returns
  a promise, \<open>Inl\<close> is the rejection reason and \<open>Inr\<close> the value the promise is fulfilled
  with; \<open>await\<close> throws the one and hands over the other.
\<close>

record ('i, 'o, 's) Validator =
  safeParse :: "'i \<Rightarrow> 's \<Rightarrow> (exception + 'o SafeParseReturnType) \<times> 's"
  safeParseAsync :: "'i \<Rightarrow> 's \<Rightarrow> (exception + 'o SafeParseReturnType) \<times> 's"

section \<open>\<open>validate\<close>\<close>

text \<open>
  The third parameter is the destructured object \<open>{ async } = { async: false }\<close>; \<open>None\<close> is
  the call that omits it, for which the default object is taken.
\<close>

record Options =
  async :: bool

definition async_of :: "Options option \<Rightarrow> bool" where
  "async_of options = async (case options of None \<Rightarrow> \<lparr>async = False\<rparr> | Some given \<Rightarrow> given)"

text \<open>
  The object literal a call returns. A property that the literal does not write is \<open>None\<close>.
\<close>

record 'o ValidationOutcome =
  success :: bool
  data :: "'o option"
  message :: "string option"
  errors :: "(string \<rightharpoonup> string list) option"

text \<open>
  The part of the environment a call can act on: the error console, as the list of the
  entries written so far, each entry being the list of the arguments of one
  \<open>console.error\<close> call, and the state of the schema. Whatever else the environment holds
  is the extension of the record.
\<close>

record 's World =
  console :: "string list list"
  schema_state :: 's

definition console_error ::
  "string list \<Rightarrow> ('s, 'a) World_scheme \<Rightarrow> ('s, 'a) World_scheme" where
  "console_error args world = world\<lparr>console := console world @ [args]\<rparr>"

text \<open>
  \<open>validate\<close> is an \<open>async\<close> function. Its model takes the environment before the call and
  gives how its promise settles, rejected with a thrown value (\<open>Inl\<close>) or fulfilled with
  the returned object (\<open>Inr\<close>), paired with the environment after the call. The body has
  no \<open>try\<close>: what the parse operation throws (line 24 or 26) or what \<open>flatten()\<close> throws
  (line 34, after the console entry of line 30 is written) leaves the function as it is.
\<close>

definition validate ::
  "('i, 'o, 's) Validator \<Rightarrow> 'i \<Rightarrow> Options option \<Rightarrow> ('s, 'a) World_scheme
     \<Rightarrow> (exception + 'o ValidationOutcome) \<times> ('s, 'a) World_scheme" where
  "validate validator input options world =
     (case (if async_of options then safeParseAsync validator input (schema_state world)
            else safeParse validator input (schema_state world)) of
        (answer, state) \<Rightarrow>
          (let world = world\<lparr>schema_state := state\<rparr> in
           case answer of
             Inl thrown \<Rightarrow> (Inl thrown, world)
           | Inr (SafeParseError error) \<Rightarrow>
               (let world = console_error [''Validation failed:'', ZodError.message error] world
                in case flatten error of
                     Inl thrown \<Rightarrow> (Inl thrown, world)
                   | Inr flattened \<Rightarrow>
                       (Inr \<lparr>success = False, data = None,
                             message = Some ''Validation failed'',
                             errors = Some (fieldErrors flattened)\<rparr>,
                        world))
           | Inr (SafeParseSuccess parsed) \<Rightarrow>
               (Inr \<lparr>success = True, data = Some parsed, message = None, errors = None\<rparr>,
                world)))"

text \<open>
  What the parse operation selected by the options answers with, in a given state of the
  schema.
\<close>

abbreviation selected_parse ::
  "('i, 'o, 's) Validator \<Rightarrow> 'i \<Rightarrow> Options option \<Rightarrow> 's
     \<Rightarrow> (exception + 'o SafeParseReturnType) \<times> 's" where
  "selected_parse validator input options state \<equiv>
     (if async_of options then safeParseAsync validator input state
      else safeParse validator input state)"

section \<open>The library's error object\<close>

text \<open>
  Modelled from the spec: the error class of the validation library, which the repository
  imports and does not contain. An error of the library is a list of issues. An issue has
  a path, the property names that lead from the root of the input to the offending value
  (empty for an issue about the input as a whole), and a message. A segment of a path
  stands here as the property name it is when used as a key of an object; for an array
  index that is the string JavaScript makes of the number.
\<close>

record ZodIssue =
  path :: "string list"
  message :: string

text \<open>
  The property names that every plain object inherits. A lookup in the \<open>fieldErrors\<close>
  object under one of them finds the inherited value, not an absent entry.
\<close>

definition object_prototype_keys :: "string list" where
  "object_prototype_keys =
     [''constructor'', ''__defineGetter__'', ''__defineSetter__'', ''hasOwnProperty'',
      ''__lookupGetter__'', ''__lookupSetter__'', ''isPrototypeOf'',
      ''propertyIsEnumerable'', ''toString'', ''valueOf'', ''__proto__'',
      ''toLocaleString'']"

text \<open>
  Modelled from the spec: \<open>flatten\<close> is a method of the validation library's error class,
  which the repository imports and does not contain. The specification describes it as
  flattening the structured error down to one entry per field path, preserving each
  field's ordered list of messages. Accordingly the issues are visited in order; an
  issue with a non-empty path appends its message to the list kept under the first
  segment of the path, creating the list when the field has none yet, and an issue with
  an empty path appends its message to \<open>formErrors\<close>. The lists are kept in a plain
  object: when the first segment is an inherited property name, the lookup finds a value
  that is not a list, and appending to it throws.
\<close>

definition flatten_issue :: "FlattenedError \<Rightarrow> ZodIssue \<Rightarrow> exception + FlattenedError" where
  "flatten_issue acc sub =
     (case path sub of
        [] \<Rightarrow> Inr (acc\<lparr>formErrors := formErrors acc @ [ZodIssue.message sub]\<rparr>)
      | key # _ \<Rightarrow>
          (case fieldErrors acc key of
             Some msgs \<Rightarrow>
               Inr (acc\<lparr>fieldErrors := (fieldErrors acc)(key \<mapsto> msgs @ [ZodIssue.message sub])\<rparr>)
           | None \<Rightarrow>
               if key \<in> set object_prototype_keys
               then Inl (Exception ''TypeError: push is not a function'')
               else Inr (acc\<lparr>fieldErrors := (fieldErrors acc)(key \<mapsto> [ZodIssue.message sub])\<rparr>)))"

fun flatten_issues :: "FlattenedError \<Rightarrow> ZodIssue list \<Rightarrow> exception + FlattenedError" where
  "flatten_issues acc [] = Inr acc"
| "flatten_issues acc (sub # rest) =
     (case flatten_issue acc sub of
        Inl thrown \<Rightarrow> Inl thrown
      | Inr acc' \<Rightarrow> flatten_issues acc' rest)"

definition zod_flatten :: "ZodIssue list \<Rightarrow> exception + FlattenedError" where
  "zod_flatten issues = flatten_issues \<lparr>formErrors = [], fieldErrors = Map.empty\<rparr> issues"

text \<open>
  The error object of the library for a list of issues. Its \<open>message\<close> is a rendering of
  the issues that the library computes; it is taken as given.
\<close>

definition zodError :: "ZodIssue list \<Rightarrow> string \<Rightarrow> ZodError" where
  "zodError issues rendered =
     \<lparr>ZodError.message = rendered, flatten = zod_flatten issues\<rparr>"




section \<open>Sample schemas\<close>

text \<open>
  Untyped input values, and the schema of the specification's scenario: an object with a
  string \<open>name\<close> and a numeric \<open>age\<close>. Anything that is not an object is rejected with one
  issue at the root. The schema keeps no state and throws nothing.
\<close>

datatype unknown =
    JNull
  | JUndefined
  | JNumber int
  | JString string
  | JObject "(string \<times> unknown) list"

definition person_issues :: "unknown \<Rightarrow> ZodIssue list" where
  "person_issues d =
     (case d of
        JObject props \<Rightarrow>
          (case map_of props ''name'' of
             Some (JString _) \<Rightarrow> []
           | _ \<Rightarrow> [\<lparr>path = [''name''], message = ''Expected string''\<rparr>])
          @ (case map_of props ''age'' of
               Some (JNumber _) \<Rightarrow> []
             | _ \<Rightarrow> [\<lparr>path = [''age''], message = ''Expected number''\<rparr>])
      | _ \<Rightarrow> [\<lparr>path = [], message = ''Expected object''\<rparr>])"

definition person_parse :: "unknown \<Rightarrow> unknown SafeParseReturnType" where
  "person_parse d =
     (if person_issues d = [] then SafeParseSuccess d
      else SafeParseError (zodError (person_issues d) ''invalid person''))"

definition person_schema :: "(unknown, unknown, 's) Validator" where
  "person_schema =
     \<lparr>safeParse = \<lambda>d state. (Inr (person_parse d), state),
      safeParseAsync = \<lambda>d state. (Inr (person_parse d), state)\<rparr>"

text \<open>Two inputs of the scenario: one the schema accepts, one whose \<open>age\<close> is a string.\<close>

definition good_person :: unknown where
  "good_person = JObject [(''name'', JString ''Al''), (''age'', JNumber 30)]"

definition bad_person :: unknown where
  "bad_person = JObject [(''name'', JString ''Al''), (''age'', JString ''x'')]"

text \<open>
  A schema that rejects every input with the same error, and an error with one issue for
  the field \<open>id\<close>.
\<close>

definition rejecting :: "ZodError \<Rightarrow> ('i, 'o, 's) Validator" where
  "rejecting e =
     \<lparr>safeParse = \<lambda>_ state. (Inr (SafeParseError e), state),
      safeParseAsync = \<lambda>_ state. (Inr (SafeParseError e), state)\<rparr>"

definition required_id :: ZodError where
  "required_id = zodError [\<lparr>path = [''id''], message = ''Required''\<rparr>] ''id is required''"



text \<open>
  A schema with a transform that turns a string into its length, differently on the two
  paths, and that throws on anything that is not a string.
\<close>

definition measuring :: "(unknown, nat, 's) Validator" where
  "measuring =
     \<lparr>safeParse = \<lambda>d state.
        (case d of JString s \<Rightarrow> Inr (SafeParseSuccess (length s))
                 | _ \<Rightarrow> Inl (Exception ''TypeError: cannot read length''), state),
      safeParseAsync = \<lambda>d state.
        (case d of JString s \<Rightarrow> Inr (SafeParseSuccess (2 * length s))
                 | _ \<Rightarrow> Inl (Exception ''TypeError: cannot read length''), state)\<rparr>"

text \<open>
  A schema with a refinement that counts its calls and accepts only the first; the state
  is the number of calls made.
\<close>

definition first_call_only :: "(unknown, unknown, nat) Validator" where
  "first_call_only =
     \<lparr>safeParse = \<lambda>d calls.
        (if calls = 0 then Inr (SafeParseSuccess d)
         else Inr (SafeParseError (zodError [\<lparr>path = [], message = ''Used before''\<rparr>] ''used before'')),
         Suc calls),
      safeParseAsync = \<lambda>d calls.
        (if calls = 0 then Inr (SafeParseSuccess d)
         else Inr (SafeParseError (zodError [\<lparr>path = [], message = ''Used before''\<rparr>] ''used before'')),
         Suc calls)\<rparr>"

section \<open>\<open>ExpressError\<close>\<close>

text \<open>
  The class extends \<open>Error\<close>: \<open>super(message)\<close> sets \<open>message\<close>, the field initialisers then
  set \<open>statusCode = 200\<close> and \<open>isOperational = false\<close>, and the constructor body overwrites
  both. The stack trace that \<open>Error.captureStackTrace\<close> attaches is a property of the host
  and is left out. Status codes are integers; the constructor compares them with nothing.
\<close>

record ExpressError =
  message :: string
  statusCode :: int
  isOperational :: bool

definition new_ExpressError :: "string \<Rightarrow> int \<Rightarrow> ExpressError" where
  "new_ExpressError msg code =
     (let this = \<lparr>message = msg, statusCode = 200, isOperational = False\<rparr>;
          this = this\<lparr>statusCode := code\<rparr>;
          this = this\<lparr>isOperational := True\<rparr>
      in this)"

section \<open>Auxiliary facts\<close>

text \<open>How a call ends, by what the selected parse operation and \<open>flatten()\<close> do.\<close>

lemma validate_thrown:
  "selected_parse V d options (schema_state w) = (Inl x, s') \<Longrightarrow>
   validate V d options w = (Inl x, w\<lparr>schema_state := s'\<rparr>)"
  by (simp add: validate_def)

lemma validate_ok:
  "selected_parse V d options (schema_state w) = (Inr (SafeParseSuccess x), s') \<Longrightarrow>
   validate V d options w =
     (Inr \<lparr>success = True, data = Some x, message = None, errors = None\<rparr>,
      w\<lparr>schema_state := s'\<rparr>)"
  by (simp add: validate_def)

lemma validate_error:
  "selected_parse V d options (schema_state w) = (Inr (SafeParseError e), s') \<Longrightarrow>
   flatten e = Inr flat \<Longrightarrow>
   validate V d options w =
     (Inr \<lparr>success = False, data = None, message = Some ''Validation failed'',
           errors = Some (fieldErrors flat)\<rparr>,
      w\<lparr>schema_state := s',
        console := console w @ [[''Validation failed:'', ZodError.message e]]\<rparr>)"
  by (simp add: validate_def console_error_def)

lemma validate_error_thrown:
  "selected_parse V d options (schema_state w) = (Inr (SafeParseError e), s') \<Longrightarrow>
   flatten e = Inl x \<Longrightarrow>
   validate V d options w =
     (Inl x,
      w\<lparr>schema_state := s',
        console := console w @ [[''Validation failed:'', ZodError.message e]]\<rparr>)"
  by (simp add: validate_def console_error_def)




lemma flatten_issue_root:
  "path sub = [] \<Longrightarrow>
   flatten_issue acc sub = Inr (acc\<lparr>formErrors := formErrors acc @ [ZodIssue.message sub]\<rparr>)"
  by (simp add: flatten_issue_def)

lemma flatten_issue_field:
  "path sub = key # rest \<Longrightarrow> flatten_issue acc sub = Inr acc' \<Longrightarrow>
   acc' = acc\<lparr>fieldErrors := (fieldErrors acc)
            (key \<mapsto> (case fieldErrors acc key of None \<Rightarrow> [] | Some msgs \<Rightarrow> msgs)
                     @ [ZodIssue.message sub])\<rparr>"
  by (auto simp: flatten_issue_def split: option.splits if_splits)



lemma flatten_issues_form:
  "flatten_issues acc issues = Inr flat \<Longrightarrow>
   formErrors flat = formErrors acc @ map ZodIssue.message (filter (\<lambda>sub. path sub = []) issues)"
proof (induction issues arbitrary: acc)
  case Nil
  then show ?case by simp
next
  case (Cons sub issues)
  from Cons.prems obtain acc' where
    step: "flatten_issue acc sub = Inr acc'" and rest: "flatten_issues acc' issues = Inr flat"
    by (auto split: sum.splits)
  note IH = Cons.IH [OF rest]
  show ?case
  proof (cases "path sub")
    case Nil
    with step have "formErrors acc' = formErrors acc @ [ZodIssue.message sub]"
      by (auto simp: flatten_issue_root)
    with Nil IH show ?thesis by simp
  next
    case (Cons key more)
    from flatten_issue_field [OF Cons step] have "formErrors acc' = formErrors acc"
      by simp
    with Cons IH show ?thesis by simp
  qed
qed



lemma zod_flatten_form:
  "zod_flatten issues = Inr flat \<Longrightarrow>
   formErrors flat = map ZodIssue.message (filter (\<lambda>sub. path sub = []) issues)"
  by (simp add: zod_flatten_def flatten_issues_form)



text \<open>
  The returned value and the environment after a call, as functions of what the selected
  parse operation answers.
\<close>

lemma validate_outcome_of_answer:
  "fst (validate V d options w)
     = (case fst (selected_parse V d options (schema_state w)) of
          Inl thrown \<Rightarrow> Inl thrown
        | Inr (SafeParseSuccess parsed) \<Rightarrow>
            Inr \<lparr>success = True, data = Some parsed, message = None, errors = None\<rparr>
        | Inr (SafeParseError error) \<Rightarrow>
            (case flatten error of
               Inl thrown \<Rightarrow> Inl thrown
             | Inr flattened \<Rightarrow>
                 Inr \<lparr>success = False, data = None,
                       message = Some ''Validation failed'',
                       errors = Some (fieldErrors flattened)\<rparr>))"
  by (simp add: validate_def Let_def
      split: prod.splits sum.splits SafeParseReturnType.splits)



text \<open>The sample schemas on the sample inputs.\<close>

lemma person_parse_good: "person_parse good_person = SafeParseSuccess good_person"
  by (simp add: person_parse_def person_issues_def good_person_def)

lemma person_parse_bad:
  "person_parse bad_person =
     SafeParseError (zodError [\<lparr>path = [''age''], message = ''Expected number''\<rparr>] ''invalid person'')"
  by (simp add: person_parse_def person_issues_def bad_person_def)


lemma selected_person:
  "selected_parse person_schema d options state = (Inr (person_parse d), state)"
  by (simp add: person_schema_def)

lemma selected_rejecting:
  "selected_parse (rejecting e) d options state = (Inr (SafeParseError e), state)"
  by (simp add: rejecting_def)

lemma selected_measuring_sync:
  "safeParse measuring (JString ''abc'') state = (Inr (SafeParseSuccess 3), state)"
  by (simp add: measuring_def)

lemma selected_measuring_async:
  "safeParseAsync measuring (JString ''abc'') state = (Inr (SafeParseSuccess 6), state)"
  by (simp add: measuring_def)


lemma flatten_age:
  "zod_flatten [\<lparr>path = [''age''], message = ''Expected number''\<rparr>]
     = Inr \<lparr>formErrors = [], fieldErrors = [''age'' \<mapsto> [''Expected number'']]\<rparr>"
  by (simp add: zod_flatten_def flatten_issue_def object_prototype_keys_def)

lemma flatten_root:
  "zod_flatten [\<lparr>path = [], message = ''Expected object''\<rparr>]
     = Inr \<lparr>formErrors = [''Expected object''], fieldErrors = Map.empty\<rparr>"
  by (simp add: zod_flatten_def flatten_issue_def)



lemma flatten_required_id:
  "flatten required_id = Inr \<lparr>formErrors = [], fieldErrors = [''id'' \<mapsto> [''Required'']]\<rparr>"
  by (simp add: required_id_def zodError_def zod_flatten_def flatten_issue_def
      object_prototype_keys_def)

section \<open>Properties of \<open>validate\<close>\<close>




text \<open>
  C2. Whenever the selected parse operation succeeds, the call returns the success variant
  whose \<open>data\<close> is the value the validator produced: the result of \<open>safeParse\<close> when
  \<open>async\<close> is false or the options are omitted, the result of \<open>safeParseAsync\<close> when
  \<open>async\<close> is true. The instance that follows uses a validator that turns a string into
  a number, differently on the two paths.
\<close>

theorem validate_success_data:
  "(safeParse V d (schema_state w) = (Inr (SafeParseSuccess x), s') \<longrightarrow>
      fst (validate V d (Some \<lparr>async = False\<rparr>) w)
        = Inr \<lparr>success = True, data = Some x, message = None, errors = None\<rparr>
      \<and> fst (validate V d None w)
        = Inr \<lparr>success = True, data = Some x, message = None, errors = None\<rparr>)
   \<and> (safeParseAsync V d (schema_state w) = (Inr (SafeParseSuccess y), s'') \<longrightarrow>
      fst (validate V d (Some \<lparr>async = True\<rparr>) w)
        = Inr \<lparr>success = True, data = Some y, message = None, errors = None\<rparr>)"
  by (simp add: validate_def async_of_def)

theorem validate_success_data_witness:
  "safeParse measuring (JString ''abc'') () = (Inr (SafeParseSuccess 3), ())
   \<and> safeParseAsync measuring (JString ''abc'') () = (Inr (SafeParseSuccess 6), ())
   \<and> fst (validate measuring (JString ''abc'') (Some \<lparr>async = False\<rparr>)
            \<lparr>console = [], schema_state = ()\<rparr>)
       = Inr \<lparr>success = True, data = Some 3, message = None, errors = None\<rparr>
   \<and> fst (validate measuring (JString ''abc'') None \<lparr>console = [], schema_state = ()\<rparr>)
       = Inr \<lparr>success = True, data = Some 3, message = None, errors = None\<rparr>
   \<and> fst (validate measuring (JString ''abc'') (Some \<lparr>async = True\<rparr>)
            \<lparr>console = [], schema_state = ()\<rparr>)
       = Inr \<lparr>success = True, data = Some 6, message = None, errors = None\<rparr>"
  using validate_success_data
    [where V = measuring and d = "JString ''abc''" and x = 3 and y = 6
       and w = "\<lparr>console = [], schema_state = ()\<rparr>" and s' = "()" and s'' = "()"]
  by (simp add: selected_measuring_sync selected_measuring_async)




text \<open>
  C5. With \<open>async\<close> true the call is determined by \<open>safeParseAsync\<close> alone: replacing
  \<open>safeParse\<close> by any other operation changes nothing, the call succeeds exactly when
  \<open>safeParseAsync\<close> does, and the schema is left in the state in which one call of
  \<open>safeParseAsync\<close> leaves it. With \<open>async\<close> false the same holds of \<open>safeParse\<close>, and a
  call without options behaves as one with \<open>async\<close> false.
\<close>

theorem validate_parse_selection:
  "validate V d (Some \<lparr>async = True\<rparr>) w
     = validate (V\<lparr>safeParse := f\<rparr>) d (Some \<lparr>async = True\<rparr>) w
   \<and> (\<exists>out. fst (validate V d (Some \<lparr>async = True\<rparr>) w) = Inr out \<and> success out)
       = (\<exists>x s'. safeParseAsync V d (schema_state w) = (Inr (SafeParseSuccess x), s'))
   \<and> schema_state (snd (validate V d (Some \<lparr>async = True\<rparr>) w))
       = snd (safeParseAsync V d (schema_state w))
   \<and> validate V d (Some \<lparr>async = False\<rparr>) w
       = validate (V\<lparr>safeParseAsync := g\<rparr>) d (Some \<lparr>async = False\<rparr>) w
   \<and> (\<exists>out. fst (validate V d (Some \<lparr>async = False\<rparr>) w) = Inr out \<and> success out)
       = (\<exists>x s'. safeParse V d (schema_state w) = (Inr (SafeParseSuccess x), s'))
   \<and> schema_state (snd (validate V d (Some \<lparr>async = False\<rparr>) w))
       = snd (safeParse V d (schema_state w))
   \<and> validate V d None w = validate V d (Some \<lparr>async = False\<rparr>) w"
proof -
  have run: "(\<exists>out. fst (validate V d options w) = Inr out \<and> success out)
               = (\<exists>x s'. selected_parse V d options (schema_state w)
                            = (Inr (SafeParseSuccess x), s'))
             \<and> schema_state (snd (validate V d options w))
               = snd (selected_parse V d options (schema_state w))" for options
  proof -
    obtain answer s' where sel: "selected_parse V d options (schema_state w) = (answer, s')"
      by (cases "selected_parse V d options (schema_state w)")
    show ?thesis
    proof (cases answer)
      case (Inl thrown)
      with sel show ?thesis
        by (simp add: validate_thrown [where V = V and d = d and options = options and w = w and x = thrown and s' = s'])
    next
      case (Inr result)
      show ?thesis
      proof (cases result)
        case (SafeParseSuccess parsed)
        with Inr sel show ?thesis
          by (simp add: validate_ok [where V = V and d = d and options = options and w = w and x = parsed and s' = s'])
      next
        case (SafeParseError e)
        show ?thesis
        proof (cases "flatten e")
          case (Inl thrown)
          with SafeParseError Inr sel show ?thesis
            by (simp add: validate_error_thrown [where V = V and d = d and options = options and w = w and e = e and s' = s' and x = thrown])
        next
          case flat: (Inr flat)
          with SafeParseError Inr sel show ?thesis
            by (simp add: validate_error [where V = V and d = d and options = options and w = w and e = e and s' = s' and flat = flat])
        qed
      qed
    qed
  qed
  from run [of "Some \<lparr>async = True\<rparr>"] run [of "Some \<lparr>async = False\<rparr>"]
  show ?thesis
    by (simp add: validate_def async_of_def)
qed

text \<open>
  C6. On a failing parse the \<open>message\<close> of every returned value is the fixed string
  "Validation failed". It does not depend on the message of the validator's error: a
  validator failing with the same error under another message yields the same result.
  The validator's message is what the console entry carries.
\<close>

theorem validate_failure_message_fixed:
  assumes "selected_parse V d options (schema_state w) = (Inr (SafeParseError e), s')"
      and "selected_parse V' d options (schema_state w)
             = (Inr (SafeParseError (e\<lparr>ZodError.message := other\<rparr>)), s')"
  shows "(\<forall>out. fst (validate V d options w) = Inr out \<longrightarrow>
            ValidationOutcome.message out = Some ''Validation failed'')
     \<and> (\<forall>flat. flatten e = Inr flat \<longrightarrow>
            fst (validate V d options w)
              = Inr \<lparr>success = False, data = None, message = Some ''Validation failed'',
                     errors = Some (fieldErrors flat)\<rparr>)
     \<and> fst (validate V' d options w) = fst (validate V d options w)
     \<and> console (snd (validate V d options w))
         = console w @ [[''Validation failed:'', ZodError.message e]]
     \<and> console (snd (validate V' d options w))
         = console w @ [[''Validation failed:'', other]]"
proof (cases "flatten e")
  case (Inl thrown)
  then have "flatten (e\<lparr>ZodError.message := other\<rparr>) = Inl thrown" by simp
  from validate_error_thrown [OF assms(1) Inl] validate_error_thrown [OF assms(2) this] Inl
  show ?thesis by simp
next
  case (Inr flat)
  then have "flatten (e\<lparr>ZodError.message := other\<rparr>) = Inr flat" by simp
  from validate_error [OF assms(1) Inr] validate_error [OF assms(2) this] Inr
  show ?thesis by simp
qed

theorem validate_failure_message_fixed_witness:
  "selected_parse (rejecting required_id :: (unknown, unknown, unit) Validator) JNull None ()
     = (Inr (SafeParseError required_id), ())
   \<and> selected_parse (rejecting (required_id\<lparr>ZodError.message := ''other text''\<rparr>)
        :: (unknown, unknown, unit) Validator) JNull None ()
     = (Inr (SafeParseError (required_id\<lparr>ZodError.message := ''other text''\<rparr>)), ())
   \<and> fst (validate (rejecting required_id :: (unknown, unknown, unit) Validator) JNull None
             \<lparr>console = [], schema_state = ()\<rparr>)
     = Inr \<lparr>success = False, data = None, message = Some ''Validation failed'',
            errors = Some [''id'' \<mapsto> [''Required'']]\<rparr>
   \<and> fst (validate (rejecting (required_id\<lparr>ZodError.message := ''other text''\<rparr>)
             :: (unknown, unknown, unit) Validator) JNull None
             \<lparr>console = [], schema_state = ()\<rparr>)
     = fst (validate (rejecting required_id :: (unknown, unknown, unit) Validator) JNull None
             \<lparr>console = [], schema_state = ()\<rparr>)
   \<and> console (snd (validate (rejecting required_id :: (unknown, unknown, unit) Validator)
                     JNull None \<lparr>console = [], schema_state = ()\<rparr>))
     = [[''Validation failed:'', ''id is required'']]
   \<and> console (snd (validate (rejecting (required_id\<lparr>ZodError.message := ''other text''\<rparr>)
                     :: (unknown, unknown, unit) Validator) JNull None
                     \<lparr>console = [], schema_state = ()\<rparr>))
     = [[''Validation failed:'', ''other text'']]"
proof -
  have h1: "selected_parse (rejecting required_id :: (unknown, unknown, unit) Validator)
              JNull None (schema_state \<lparr>console = [], schema_state = ()\<rparr>)
     = (Inr (SafeParseError required_id), ())"
    by (simp add: selected_rejecting)
  have h2: "selected_parse (rejecting (required_id\<lparr>ZodError.message := ''other text''\<rparr>)
        :: (unknown, unknown, unit) Validator) JNull None
              (schema_state \<lparr>console = [], schema_state = ()\<rparr>)
     = (Inr (SafeParseError (required_id\<lparr>ZodError.message := ''other text''\<rparr>)), ())"
    by (simp add: selected_rejecting)
  have m: "ZodError.message required_id = ''id is required''"
    by (simp add: required_id_def zodError_def)
  from validate_failure_message_fixed [OF h1 h2] flatten_required_id m
  show ?thesis by (simp add: selected_rejecting)
qed

text \<open>
  C7. A call keeps no state of its own: its result is determined by what the selected
  parse operation answers. So two calls with the same validator, input and options give
  the same result whenever the parse operation answers the same on both, whatever the
  console holds; this covers the second of two calls made one after the other.
\<close>

theorem validate_repeatable:
  assumes "fst (selected_parse V d options (schema_state w'))
             = fst (selected_parse V d options (schema_state w))"
  shows "fst (validate V d options w') = fst (validate V d options w)"
  using assms by (simp only: validate_outcome_of_answer)

theorem validate_repeatable_witness:
  "fst (selected_parse person_schema bad_person None
          (schema_state (snd (validate person_schema bad_person None
                                 \<lparr>console = [], schema_state = ()\<rparr>))))
     = fst (selected_parse person_schema bad_person None ())
   \<and> snd (validate person_schema bad_person None \<lparr>console = [], schema_state = ()\<rparr>)
       = \<lparr>console = [[''Validation failed:'', ''invalid person'']], schema_state = ()\<rparr>
   \<and> fst (validate person_schema bad_person None
            (snd (validate person_schema bad_person None \<lparr>console = [], schema_state = ()\<rparr>)))
       = fst (validate person_schema bad_person None \<lparr>console = [], schema_state = ()\<rparr>)"
proof -
  have h: "fst (selected_parse person_schema bad_person None
          (schema_state (snd (validate person_schema bad_person None
                                 \<lparr>console = [], schema_state = ()\<rparr>))))
     = fst (selected_parse person_schema bad_person None
              (schema_state \<lparr>console = [], schema_state = ()\<rparr>))"
    by (simp add: selected_person)
  have w: "snd (validate person_schema bad_person None \<lparr>console = [], schema_state = ()\<rparr>)
       = \<lparr>console = [[''Validation failed:'', ''invalid person'']], schema_state = ()\<rparr>"
    by (simp add: validate_def async_of_def console_error_def person_schema_def
        person_parse_bad zodError_def flatten_age)
  from validate_repeatable [OF h] w show ?thesis
    by (simp add: selected_person)
qed

text \<open>
  With a schema that keeps state the two results can differ. The schema that accepts only
  its first call makes the first call succeed and the second, identical, call fail.
\<close>

theorem validate_stateful_counterexample:
  "fst (validate first_call_only JNull None \<lparr>console = [], schema_state = 0\<rparr>)
     = Inr \<lparr>success = True, data = Some JNull, message = None, errors = None\<rparr>
   \<and> fst (validate first_call_only JNull None
            (snd (validate first_call_only JNull None \<lparr>console = [], schema_state = 0\<rparr>)))
       = Inr \<lparr>success = False, data = None, message = Some ''Validation failed'',
              errors = Some Map.empty\<rparr>
   \<and> fst (validate first_call_only JNull None
            (snd (validate first_call_only JNull None \<lparr>console = [], schema_state = 0\<rparr>)))
       \<noteq> fst (validate first_call_only JNull None \<lparr>console = [], schema_state = 0\<rparr>)"
proof -
  have first: "validate first_call_only JNull None \<lparr>console = [], schema_state = 0\<rparr>
     = (Inr \<lparr>success = True, data = Some JNull, message = None, errors = None\<rparr>,
        \<lparr>console = [], schema_state = Suc 0\<rparr>)"
    by (simp add: validate_def first_call_only_def async_of_def)
  have second: "fst (validate first_call_only JNull None \<lparr>console = [], schema_state = Suc 0\<rparr>)
     = Inr \<lparr>success = False, data = None, message = Some ''Validation failed'',
            errors = Some Map.empty\<rparr>"
    by (simp add: validate_def first_call_only_def async_of_def console_error_def
        zodError_def flatten_root [unfolded zod_flatten_def] zod_flatten_def flatten_issue_def)
  from first second show ?thesis by simp
qed





text \<open>
  C10. In every returned value the properties present are fixed by \<open>success\<close>: when it is
  true, \<open>data\<close> is present and \<open>message\<close> and \<open>errors\<close> are absent; when it is false,
  \<open>message\<close> and \<open>errors\<close> are present and \<open>data\<close> is absent.
\<close>

theorem validate_outcome_shape:
  "\<forall>out. fst (validate V d options w) = Inr out \<longrightarrow>
     (success out \<longrightarrow>
        data out \<noteq> None \<and> ValidationOutcome.message out = None \<and> errors out = None)
     \<and> (\<not> success out \<longrightarrow>
        data out = None \<and> ValidationOutcome.message out \<noteq> None \<and> errors out \<noteq> None)"
  by (auto simp: validate_outcome_of_answer split: sum.splits SafeParseReturnType.splits)

theorem validate_outcome_shape_witness:
  "fst (validate person_schema good_person None \<lparr>console = [], schema_state = ()\<rparr>)
     = Inr \<lparr>success = True, data = Some good_person, message = None, errors = None\<rparr>
   \<and> success \<lparr>success = True, data = Some good_person, message = None, errors = None\<rparr>
   \<and> data \<lparr>success = True, data = Some good_person, message = None, errors = None\<rparr> \<noteq> None
   \<and> fst (validate person_schema bad_person None \<lparr>console = [], schema_state = ()\<rparr>)
     = Inr \<lparr>success = False, data = None, message = Some ''Validation failed'',
            errors = Some [''age'' \<mapsto> [''Expected number'']]\<rparr>
   \<and> \<not> success \<lparr>success = False, data = (None :: unknown option),
                  message = Some ''Validation failed'',
                  errors = Some [''age'' \<mapsto> [''Expected number'']]\<rparr>"
proof -
  have g: "fst (validate person_schema good_person None \<lparr>console = [], schema_state = ()\<rparr>)
     = Inr \<lparr>success = True, data = Some good_person, message = None, errors = None\<rparr>"
    by (simp add: validate_outcome_of_answer selected_person person_parse_good)
  have b: "fst (validate person_schema bad_person None \<lparr>console = [], schema_state = ()\<rparr>)
     = Inr \<lparr>success = False, data = None, message = Some ''Validation failed'',
            errors = Some [''age'' \<mapsto> [''Expected number'']]\<rparr>"
    by (simp add: validate_outcome_of_answer selected_person person_parse_bad zodError_def
        flatten_age)
  from validate_outcome_shape [rule_format, OF g] validate_outcome_shape [rule_format, OF b] g b
  show ?thesis by simp
qed

section \<open>Properties of \<open>ExpressError\<close>\<close>

text \<open>
  C4. For every message and every integer status code, the constructed error carries the
  message, the status code exactly as given (no range check), and the operational flag
  set; in particular for the message "Not found" and the code 404.
\<close>

theorem new_ExpressError_fields:
  "ExpressError.message (new_ExpressError m s) = m
   \<and> statusCode (new_ExpressError m s) = s
   \<and> isOperational (new_ExpressError m s) = True
   \<and> new_ExpressError ''Not found'' 404
       = \<lparr>message = ''Not found'', statusCode = 404, isOperational = True\<rparr>"
  by (simp add: new_ExpressError_def)

end
